theory Spec2Isabelle
  imports Main "HOL-Library.Word"
begin

section \<open>Go strings\<close>

text \<open>
  A Go string is a byte sequence, here a \<open>char list\<close>. The helpers below are the
  functions of package \<open>strings\<close> that the checker calls. White space is the ASCII
  white space of \<open>unicode.IsSpace\<close> (tab, line feed, vertical tab, form feed,
  carriage return, space) and letter case is ASCII letter case: the model is that of the
  program on texts whose white space and capital letters are ASCII.
\<close>

definition isSpace :: "char \<Rightarrow> bool" where
  "isSpace c = (c = CHR 0x09 \<or> c = CHR 0x0A \<or> c = CHR 0x0B \<or> c = CHR 0x0C
                \<or> c = CHR 0x0D \<or> c = CHR 0x20)"

definition TrimSpace :: "string \<Rightarrow> string" where
  "TrimSpace s = rev (dropWhile isSpace (rev (dropWhile isSpace s)))"

definition HasPrefix :: "string \<Rightarrow> string \<Rightarrow> bool" where
  "HasPrefix s p = (take (length p) s = p)"

definition TrimPrefix :: "string \<Rightarrow> string \<Rightarrow> string" where
  "TrimPrefix s p = (if HasPrefix s p then drop (length p) s else s)"

definition HasSuffix :: "string \<Rightarrow> string \<Rightarrow> bool" where
  "HasSuffix s p = (length p \<le> length s \<and> drop (length s - length p) s = p)"

definition TrimSuffix :: "string \<Rightarrow> string \<Rightarrow> string" where
  "TrimSuffix s p = (if HasSuffix s p then take (length s - length p) s else s)"

definition lowerChar :: "char \<Rightarrow> char" where
  "lowerChar c =
     (if (65::nat) \<le> of_char c \<and> of_char c \<le> (90::nat)
      then char_of (of_char c + (32::nat)) else c)"

definition ToLower :: "string \<Rightarrow> string" where
  "ToLower s = map lowerChar s"

text \<open>\<open>strings.Split(s, sep)\<close> for a one-byte separator: never an empty list.\<close>

fun Split :: "string \<Rightarrow> char \<Rightarrow> string list" where
  "Split [] sep = [[]]"
| "Split (c # cs) sep =
     (if c = sep then [] # Split cs sep
      else (case Split cs sep of
              [] \<Rightarrow> [[c]]
            | p # ps \<Rightarrow> (c # p) # ps))"

text \<open>\<open>strings.Cut(s, sep)\<close> for a one-byte separator: before, after, found.\<close>

fun Cut :: "string \<Rightarrow> char \<Rightarrow> string \<times> string \<times> bool" where
  "Cut [] sep = ([], [], False)"
| "Cut (c # cs) sep =
     (if c = sep then ([], cs, True)
      else (case Cut cs sep of (b, a, f) \<Rightarrow> (c # b, a, f)))"

text \<open>\<open>strings.Fields\<close>: the maximal runs of non-space bytes, in order.\<close>

fun Fields :: "string \<Rightarrow> string list" where
  "Fields [] = []"
| "Fields (c # cs) =
     (if isSpace c then Fields cs
      else (case cs of
              [] \<Rightarrow> [[c]]
            | d # ds \<Rightarrow>
                (if isSpace d then [c] # Fields cs
                 else (case Fields cs of
                         [] \<Rightarrow> [[c]]
                       | f # fs \<Rightarrow> (c # f) # fs))))"

text \<open>\<open>strings.Trim(s, cutset)\<close>: drops the leading and trailing bytes of the cutset.\<close>

definition Trim :: "string \<Rightarrow> string \<Rightarrow> string" where
  "Trim s cutset =
     rev (dropWhile (\<lambda>c. c \<in> set cutset) (rev (dropWhile (\<lambda>c. c \<in> set cutset) s)))"

text \<open>\<open>strings.IndexByte\<close>: the index of the first occurrence, or \<open>-1\<close>.\<close>

fun IndexByte :: "string \<Rightarrow> char \<Rightarrow> int" where
  "IndexByte [] b = -1"
| "IndexByte (c # cs) b =
     (if c = b then 0
      else (let i = IndexByte cs b in if i < 0 then -1 else i + 1))"

section \<open>Results and errors\<close>

text \<open>
  \<open>Result\<close> is a Go string type with seven named constants; the zero value of the type
  is the empty string, which is none of them.
\<close>

type_synonym Result = string

definition None_Result :: Result where "None_Result = ''none''"
definition Neutral :: Result where "Neutral = ''neutral''"
definition Pass :: Result where "Pass = ''pass''"
definition Fail :: Result where "Fail = ''fail''"
definition SoftFail :: Result where "SoftFail = ''softfail''"
definition TempError :: Result where "TempError = ''temperror''"
definition PermError :: Result where "PermError = ''permerror''"

text \<open>
  Error values. The first five are the sentinels of \<open>ValidateDomain\<close>. The next four are
  the sentinels of the record fetch, which \<open>CheckHost\<close> tests with \<open>errors.Is\<close>;
  \<open>Canceled\<close> and \<open>DeadlineExceeded\<close> are those of package \<open>context\<close>.
  \<open>ErrorString\<close> is \<open>errors.New\<close>; \<open>Errorf fmt args\<close> is \<open>fmt.Errorf\<close> with a
  format and its string arguments, \<open>ErrorfV fmt e\<close> with an error formatted by \<open>%v\<close>
  (not unwrappable) and \<open>ErrorfW fmt e\<close> with an error wrapped by \<open>%w\<close>.
\<close>

datatype error =
    ErrSingleLabel
  | ErrEmptyLabel
  | ErrLabelTooLong
  | ErrDomainTooLong
  | ErrIDNAConversion
  | ErrNoDNSrecord
  | ErrTempfail
  | ErrPermfail
  | ErrMultipleSPF
  | Canceled
  | DeadlineExceeded
  | ErrorString string
  | Errorf string "string list"
  | ErrorfV string error
  | ErrorfW string error

text \<open>\<open>errors.Is(err, target)\<close> for a sentinel target: walks the \<open>%w\<close> chain.\<close>

fun errors_Is' :: "error \<Rightarrow> error \<Rightarrow> bool" where
  "errors_Is' (ErrorfW f e) target = (ErrorfW f e = target \<or> errors_Is' e target)"
| "errors_Is' e target = (e = target)"

definition errors_Is :: "error option \<Rightarrow> error \<Rightarrow> bool" where
  "errors_Is err target = (case err of None \<Rightarrow> False | Some e \<Rightarrow> errors_Is' e target)"

section \<open>Domain validation\<close>

text \<open>
  \<open>idna.Lookup.ToASCII\<close> belongs to an external library; it is a parameter
  \<open>toASCII\<close> of the model, \<open>None\<close> when the conversion returns an error.
\<close>

fun checkLabels :: "string list \<Rightarrow> error option" where
  "checkLabels [] = None"
| "checkLabels (lbl # rest) =
     (if length lbl = 0 then Some ErrEmptyLabel
      else if length lbl > 63 then Some ErrLabelTooLong
      else checkLabels rest)"

definition ValidateDomain :: "(string \<Rightarrow> string option) \<Rightarrow> string \<Rightarrow> error + string" where
  "ValidateDomain toASCII raw =
     (let raw1 = TrimSpace raw;
          raw2 = TrimSuffix raw1 ''.''
      in case toASCII raw2 of
           None \<Rightarrow> Inl ErrIDNAConversion
         | Some a \<Rightarrow>
             (let ascii = ToLower a
              in if length ascii > 255 then Inl ErrDomainTooLong
                 else (let labels = Split ascii CHR ''.''
                       in if length labels < 2 then Inl ErrSingleLabel
                          else (case checkLabels labels of
                                  Some e \<Rightarrow> Inl e
                                | None \<Rightarrow> Inr ascii))))"

definition localPart :: "string \<Rightarrow> string" where
  "localPart sender0 =
     (let sender = Trim sender0 ''<>'';
          at = IndexByte sender CHR ''@''
      in if at > 0 then take (nat at) sender else ''postmaster'')"

definition getSenderDomain :: "string \<Rightarrow> string \<times> bool" where
  "getSenderDomain sender =
     (case Cut sender CHR ''@'' of
        (b, a, found) \<Rightarrow> if found then (a, True) else ('''', False))"

section \<open>check_host\<close>

type_synonym byte = "8 word"
type_synonym IP = "byte list"

record CheckHostResult =
  Code :: Result
  Cause :: "error option"

definition zeroCheckHostResult :: CheckHostResult where
  "zeroCheckHostResult = \<lparr>Code = '''', Cause = None\<rparr>"

text \<open>
  The limits of RFC 7208 section 4.6.4 and the checker. The interface \<open>TXTResolver\<close>
  and the function \<open>getSPFRecord\<close> are not part of the sources at hand: the field
  \<open>Resolver\<close> of the model holds the fetch that \<open>getSPFRecord\<close> performs through the
  resolver of the checker, from a domain to the record text and an error. The constant
  \<open>MaxVoidLookups\<close> of the package is \<open>MaxVoidLookups_limit\<close> here, the field of the
  checker keeps the name.
\<close>

definition MaxDNSLookups :: int where "MaxDNSLookups = 10"
definition MaxVoidLookups_limit :: int where "MaxVoidLookups_limit = 2"

record Checker =
  Resolver :: "string \<Rightarrow> string \<times> error option"
  MaxLookups :: int
  MaxVoidLookups :: int

definition NewChecker :: "(string \<Rightarrow> string \<times> error option) \<Rightarrow> Checker" where
  "NewChecker r = \<lparr>Resolver = r, MaxLookups = MaxDNSLookups, MaxVoidLookups = MaxVoidLookups_limit\<rparr>"

definition evaluate ::
  "Checker \<Rightarrow> IP \<Rightarrow> string \<Rightarrow> string \<Rightarrow> string \<Rightarrow> CheckHostResult \<times> error option" where
  "evaluate c ip domain spf lp =
     (\<lparr>Code = Neutral, Cause = Some (ErrorString ''policy exists but no assertion'')\<rparr>, None)"

text \<open>
  The third component of the result of \<open>CheckHost\<close> is the list of domains the record
  was fetched for, in order: the DNS work of the call.
\<close>

definition CheckHost ::
  "(string \<Rightarrow> string option) \<Rightarrow> Checker \<Rightarrow>
     IP \<Rightarrow> string \<Rightarrow> string \<Rightarrow> CheckHostResult \<times> error option \<times> string list" where
  "CheckHost toASCII c ip domain0 sender =
     (case ValidateDomain toASCII domain0 of
        Inl err \<Rightarrow> (\<lparr>Code = None_Result, Cause = Some err\<rparr>, None, [])
      | Inr valDomain \<Rightarrow>
          (let domain = valDomain;
               lp = localPart sender;
               (spfRecord, err) = Resolver c domain;
               fetched = [domain]
           in if errors_Is err Canceled \<or> errors_Is err DeadlineExceeded
                then (zeroCheckHostResult, err, fetched)
              else if errors_Is err ErrNoDNSrecord
                then (\<lparr>Code = None_Result, Cause = err\<rparr>, err, fetched)
              else if errors_Is err ErrTempfail
                then (\<lparr>Code = TempError, Cause = err\<rparr>, None, fetched)
              else if errors_Is err ErrPermfail \<or> errors_Is err ErrMultipleSPF
                then (\<lparr>Code = PermError, Cause = err\<rparr>, None, fetched)
              else if err \<noteq> None
                then (zeroCheckHostResult, err, fetched)
              else if spfRecord = ''''
                then (zeroCheckHostResult, err, fetched)
              else (case evaluate c ip valDomain spfRecord lp of
                      (r, e) \<Rightarrow> (r, e, fetched))))"

section \<open>Package strconv and package net\<close>

text \<open>
  \<open>strconv.Atoi\<close>: an optional sign, then one or more decimal digits and nothing else;
  a value outside the 64-bit range is an error as well.
\<close>

definition isDigit :: "char \<Rightarrow> bool" where
  "isDigit c = ((48::nat) \<le> of_char c \<and> of_char c \<le> (57::nat))"

definition digitVal :: "char \<Rightarrow> nat" where
  "digitVal c = of_char c - 48"

definition decimal :: "string \<Rightarrow> nat" where
  "decimal s = foldl (\<lambda>n c. n * 10 + digitVal c) 0 s"

definition Atoi :: "string \<Rightarrow> int option" where
  "Atoi s0 =
     (let neg = (s0 \<noteq> [] \<and> hd s0 = CHR ''-'');
          s = (if s0 \<noteq> [] \<and> (hd s0 = CHR ''-'' \<or> hd s0 = CHR ''+'') then tl s0 else s0)
      in if s = [] \<or> \<not> list_all isDigit s then None
         else (let n = (if neg then - int (decimal s) else int (decimal s))
               in if n < - (2 ^ 63) \<or> n > 2 ^ 63 - 1 then None else Some n))"

text \<open>
  Package \<open>net\<close>: an \<open>IP\<close> is a slice of 4 or 16 bytes, an \<open>IPMask\<close> a slice of
  bytes, an \<open>IPNet\<close> an address with a mask. The functions below follow the
  standard library (\<open>net.ParseCIDR\<close> with \<open>netip.ParseAddr\<close>, \<open>IP.To4\<close>,
  \<open>IP.Mask\<close>, \<open>CIDRMask\<close>, \<open>IPMask.Size\<close>), statement by statement where they
  loop. A zone (\<open>%\<close>) makes \<open>ParseCIDR\<close> fail, so the model has none.
\<close>

type_synonym IPMask = "byte list"

record IPNet =
  IP :: IP
  Mask :: IPMask

definition isZeros :: "byte list \<Rightarrow> bool" where
  "isZeros p = list_all (\<lambda>b. b = 0) p"

definition To4 :: "IP \<Rightarrow> IP option" where
  "To4 ip =
     (if length ip = 4 then Some ip
      else if length ip = 16 \<and> isZeros (take 10 ip) \<and> ip ! 10 = 0xff \<and> ip ! 11 = 0xff
        then Some (drop 12 ip)
      else None)"

fun CIDRMaskBytes :: "nat \<Rightarrow> nat \<Rightarrow> IPMask" where
  "CIDRMaskBytes 0 n = []"
| "CIDRMaskBytes (Suc l) n =
     (if n \<ge> 8 then 0xff # CIDRMaskBytes l (n - 8)
      else (of_nat (255 - 255 div 2 ^ n)) # CIDRMaskBytes l 0)"

definition CIDRMask :: "nat \<Rightarrow> nat \<Rightarrow> IPMask" where
  "CIDRMask ones bits = CIDRMaskBytes (bits div 8) ones"

text \<open>\<open>simpleMaskLength\<close>: the number of leading one bits, or \<open>-1\<close> when a one bit
  follows a zero bit.\<close>

fun leadingOnes :: "nat \<Rightarrow> nat \<Rightarrow> nat \<times> nat" where
  "leadingOnes 0 v = (0, v)"
| "leadingOnes (Suc k) v =
     (if v mod 256 \<ge> 128
      then (case leadingOnes k ((v * 2) mod 256) of (n, r) \<Rightarrow> (Suc n, r))
      else (0, v mod 256))"

fun simpleMaskLength :: "IPMask \<Rightarrow> int" where
  "simpleMaskLength [] = 0"
| "simpleMaskLength (v # rest) =
     (if v = 0xff
      then (let n = simpleMaskLength rest in if n < 0 then -1 else n + 8)
      else (case leadingOnes 8 (unat v) of
              (n, r) \<Rightarrow> if r \<noteq> 0 then -1
                        else if \<not> isZeros rest then -1
                        else int n))"

definition Mask_Size :: "IPMask \<Rightarrow> int \<times> int" where
  "Mask_Size m =
     (let ones = simpleMaskLength m; bits = int (length m) * 8
      in if ones = -1 then (0, 0) else (ones, bits))"

definition v4InV6Prefix :: "byte list" where
  "v4InV6Prefix = [0, 0, 0, 0, 0, 0, 0, 0, 0, 0, 0xff, 0xff]"

definition IP_Mask :: "IP \<Rightarrow> IPMask \<Rightarrow> IP option" where
  "IP_Mask ip0 mask0 =
     (let msk = (if length mask0 = 16 \<and> length ip0 = 4 \<and> list_all (\<lambda>b. b = 0xff) (take 12 mask0)
                  then drop 12 mask0 else mask0);
          ip = (if length msk = 4 \<and> length ip0 = 16 \<and> take 12 ip0 = v4InV6Prefix
                then drop 12 ip0 else ip0)
      in if length ip \<noteq> length msk then None
         else Some (map (\<lambda>(a, b). and a b) (zip ip msk)))"

text \<open>
  Address text. An IPv4 address is four decimal fields in \<open>0..255\<close> separated by
  dots, a field of more than one digit not starting with \<open>0\<close>.
\<close>

definition parseIPv4Field :: "string \<Rightarrow> byte option" where
  "parseIPv4Field f =
     (if f = [] \<or> \<not> list_all isDigit f then None
      else if length f > 1 \<and> hd f = CHR ''0'' then None
      else if decimal f > 255 then None
      else Some (of_nat (decimal f)))"

definition parseIPv4Fields :: "string \<Rightarrow> byte list option" where
  "parseIPv4Fields s =
     (let fs = map parseIPv4Field (Split s CHR ''.'')
      in if length fs = 4 \<and> list_all (\<lambda>x. x \<noteq> None) fs then Some (map the fs) else None)"

definition isHexDigit :: "char \<Rightarrow> bool" where
  "isHexDigit c =
     (isDigit c \<or> ((97::nat) \<le> of_char c \<and> of_char c \<le> (102::nat))
                \<or> ((65::nat) \<le> of_char c \<and> of_char c \<le> (70::nat)))"

definition hexVal :: "char \<Rightarrow> nat" where
  "hexVal c =
     (if isDigit c then of_char c - 48
      else if (97::nat) \<le> of_char c then of_char c - 87
      else of_char c - 55)"

definition hexadecimal :: "string \<Rightarrow> nat" where
  "hexadecimal s = foldl (\<lambda>n c. n * 16 + hexVal c) 0 s"

text \<open>
  The loop of the IPv6 parser: \<open>s\<close> is the text still to read, \<open>i\<close> the number of
  bytes written, \<open>ellipsis\<close> the byte position of \<open>::\<close> or \<open>-1\<close>, \<open>ip\<close> the bytes
  written so far. \<open>None\<close> is a parse error.
\<close>

function v6loop :: "string \<Rightarrow> nat \<Rightarrow> int \<Rightarrow> byte list \<Rightarrow> (string \<times> nat \<times> int \<times> byte list) option" where
  "v6loop s i ellipsis ip =
     (if \<not> i < 16 then Some (s, i, ellipsis, ip)
      else (let digits = takeWhile isHexDigit s; off = length digits
            in if off > 4 then None
               else if off = 0 then None
               else if off < length s \<and> s ! off = CHR ''.'' then
                 (if ellipsis < 0 \<and> i \<noteq> 12 then None
                  else if i + 4 > 16 then None
                  else (case parseIPv4Fields s of
                          None \<Rightarrow> None
                        | Some bs \<Rightarrow> Some ([], i + 4, ellipsis, ip @ bs)))
               else (let acc = hexadecimal digits;
                         ip1 = ip @ [of_nat (acc div 256), of_nat (acc mod 256)];
                         i1 = i + 2;
                         s1 = drop off s
                     in if s1 = [] then Some (s1, i1, ellipsis, ip1)
                        else if hd s1 \<noteq> CHR '':'' then None
                        else if length s1 = 1 then None
                        else (let s2 = tl s1
                              in if hd s2 = CHR '':'' then
                                   (if ellipsis \<ge> 0 then None
                                    else (let s3 = tl s2
                                          in if s3 = [] then Some (s3, i1, int i1, ip1)
                                             else v6loop s3 i1 (int i1) ip1))
                                 else v6loop s2 i1 ellipsis ip1))))"
  by pat_completeness auto
termination
  by (relation "measure (\<lambda>(s, i, e, ip). 16 - i)") auto

declare v6loop.simps [simp del]

definition parseIPv6 :: "string \<Rightarrow> IP option" where
  "parseIPv6 s0 =
     (if CHR ''%'' \<in> set s0 then None
      else (let lead = (length s0 \<ge> 2 \<and> s0 ! 0 = CHR '':'' \<and> s0 ! 1 = CHR '':'');
                s = (if lead then drop 2 s0 else s0);
                ellipsis0 = (if lead then 0 else -1)
            in if lead \<and> s = [] then Some (replicate 16 0)
               else (case v6loop s 0 ellipsis0 [] of
                       None \<Rightarrow> None
                     | Some (s', i, ellipsis, ip) \<Rightarrow>
                         if s' \<noteq> [] then None
                         else if i < 16 then
                           (if ellipsis < 0 then None
                            else Some (take (nat ellipsis) ip @ replicate (16 - i) 0
                                         @ drop (nat ellipsis) ip))
                         else if ellipsis \<ge> 0 then None
                         else Some ip)))"

text \<open>
  \<open>ParseAddr\<close>: the first of \<open>.\<close>, \<open>:\<close> and \<open>%\<close> in the text decides the family;
  the result is the 16-byte form and the bit length of the family (an IPv4 address in
  the IPv4-mapped form, bit length 32).
\<close>

fun addrFamily :: "string \<Rightarrow> char option" where
  "addrFamily [] = None"
| "addrFamily (c # cs) =
     (if c = CHR ''.'' \<or> c = CHR '':'' \<or> c = CHR ''%'' then Some c else addrFamily cs)"

definition ParseAddr :: "string \<Rightarrow> (IP \<times> nat) option" where
  "ParseAddr s =
     (case addrFamily s of
        None \<Rightarrow> None
      | Some c \<Rightarrow>
          if c = CHR ''.'' then
            (case parseIPv4Fields s of
               None \<Rightarrow> None
             | Some bs \<Rightarrow> Some (v4InV6Prefix @ bs, 32))
          else if c = CHR '':'' then
            (case parseIPv6 s of None \<Rightarrow> None | Some ip \<Rightarrow> Some (ip, 128))
          else None)"

text \<open>
  \<open>net.ParseCIDR\<close>: address, a slash, a decimal prefix length of at most the bit
  length of the address family. It returns the address in 16-byte form and the network
  (the masked address, with the mask).
\<close>

definition ParseCIDR :: "string \<Rightarrow> (IP \<times> IPNet) option" where
  "ParseCIDR s =
     (case Cut s CHR ''/'' of
        (addr, msk, found) \<Rightarrow>
          if \<not> found then None
          else (case ParseAddr addr of
                  None \<Rightarrow> None
                | Some (ip, bitlen) \<Rightarrow>
                    if msk = [] \<or> \<not> list_all isDigit msk \<or> decimal msk > bitlen then None
                    else (let m = CIDRMask (decimal msk) bitlen
                          in case IP_Mask ip m of
                               None \<Rightarrow> None
                             | Some nip \<Rightarrow> Some (ip, \<lparr>IP = nip, Mask = m\<rparr>))))"

section \<open>The record parser\<close>

type_synonym Qualifier = char

definition QPlus :: Qualifier where "QPlus = CHR ''+''"
definition QMinus :: Qualifier where "QMinus = CHR ''-''"
definition QTilde :: Qualifier where "QTilde = CHR ''~''"
definition QMark :: Qualifier where "QMark = CHR ''?''"

record Modifier =
  Name :: string
  Value :: string

text \<open>
  A \<open>Mechanism\<close> has all seven fields whatever its kind; a field that a parser does
  not set keeps the zero value of its type (\<open>nil\<close>, the empty string, \<open>0\<close>).
\<close>

record Mechanism =
  Qual :: Qualifier
  Kind :: string
  Net :: "IPNet option"
  Domain :: string
  Mask4 :: int
  Mask6 :: int
  Macro :: string

record Record =
  Mechs :: "Mechanism list"
  Redirect :: "Modifier option"
  Exp :: "Modifier option"
  Unknown :: "Modifier list"

definition zeroMechanism :: Mechanism where
  "zeroMechanism =
     \<lparr>Qual = char_of (0::nat), Kind = '''', Net = None, Domain = '''', Mask4 = 0, Mask6 = 0,
      Macro = ''''\<rparr>"

definition zeroRecord :: Record where
  "zeroRecord = \<lparr>Mechs = [], Redirect = None, Exp = None, Unknown = []\<rparr>"

text \<open>
  A run-time panic is not an error value of the program; where the source indexes or
  slices, the model writes the out-of-range case as \<open>Panic\<close>.
\<close>

datatype 'a outcome = Panic | Returns 'a

definition tokenizer :: "string \<Rightarrow> (error + string list) outcome" where
  "tokenizer raw0 =
     (let raw = TrimSpace raw0
      in if \<not> HasPrefix (ToLower raw) ''v=spf1''
         then Returns (Inl (Errorf ''missing v=spf1'' []))
         else (case Fields raw of
                 [] \<Rightarrow> Panic
               | v # flds \<Rightarrow>
                   if length flds = 0 then Returns (Inl (Errorf ''no terms'' []))
                   else Returns (Inr flds)))"

definition stripQualifier :: "string \<Rightarrow> Qualifier \<times> string" where
  "stripQualifier tok =
     (case tok of
        [] \<Rightarrow> (QPlus, tok)
      | c # rest \<Rightarrow>
          if c = CHR ''+'' \<or> c = CHR ''-'' \<or> c = CHR ''~'' \<or> c = CHR ''?''
          then (c, rest) else (QPlus, tok))"

definition parseAll :: "Qualifier \<Rightarrow> string \<Rightarrow> error + Mechanism" where
  "parseAll q rest =
     (if rest \<noteq> ''all'' then Inl (Errorf ''not all'' [])
      else Inr (zeroMechanism\<lparr>Qual := q, Kind := ''all''\<rparr>))"

definition parseIP4 :: "Qualifier \<Rightarrow> string \<Rightarrow> error + Mechanism" where
  "parseIP4 q rest =
     (if \<not> HasPrefix rest ''ip4:'' then Inl (Errorf ''no match'' [])
      else (let cidr0 = TrimPrefix rest ''ip4:'';
                cidr = (if CHR ''/'' \<notin> set cidr0 then cidr0 @ ''/32'' else cidr0)
            in case ParseCIDR cidr of
                 None \<Rightarrow> Inl (Errorf ''bad ipcidr %q'' [cidr])
               | Some (ip, netw) \<Rightarrow>
                   if To4 ip = None then Inl (Errorf ''bad ipcidr %q'' [cidr])
                   else (case Mask_Size (Mask netw) of
                           (ones, bits) \<Rightarrow>
                             if ones > 32 then Inl (Errorf ''cidr out of range'' [])
                             else Inr (zeroMechanism\<lparr>Qual := q, Kind := ''ip4'',
                                                      Net := Some netw\<rparr>))))"

definition parseIP6 :: "Qualifier \<Rightarrow> string \<Rightarrow> error + Mechanism" where
  "parseIP6 q rest =
     (if \<not> HasPrefix rest ''ip6:'' then Inl (Errorf ''no match'' [])
      else (let cidr0 = TrimPrefix rest ''ip6:'';
                cidr = (if CHR ''/'' \<notin> set cidr0 then cidr0 @ ''/128'' else cidr0)
            in case ParseCIDR cidr of
                 None \<Rightarrow> Inl (Errorf ''bad ipcidr %q'' [cidr])
               | Some (ip, netw) \<Rightarrow>
                   if To4 ip \<noteq> None then Inl (Errorf ''bad ipcidr %q'' [cidr])
                   else (case Mask_Size (Mask netw) of
                           (ones, bits) \<Rightarrow>
                             if ones > 128 then Inl (Errorf ''cidr out out of range'' [])
                             else Inr (zeroMechanism\<lparr>Qual := q, Kind := ''ip6'',
                                                      Net := Some netw\<rparr>))))"

definition toInt :: "string \<Rightarrow> int \<Rightarrow> error + int" where
  "toInt s mx =
     (case Atoi s of
        None \<Rightarrow> Inl (Errorf ''cidr out of range'' [])
      | Some n \<Rightarrow> if n < 0 \<or> n > mx then Inl (Errorf ''cidr out of range'' []) else Inr n)"

definition parseMasks :: "string \<Rightarrow> error + (int \<times> int)" where
  "parseMasks maskstr =
     (case Split maskstr CHR ''/'' of
        [p0] \<Rightarrow>
          (case toInt p0 32 of
             Inl err \<Rightarrow> Inl err
           | Inr mask4 \<Rightarrow> Inr (mask4, -1))
      | [p0, p1] \<Rightarrow>
          (case toInt p0 32 of
             Inl err \<Rightarrow> Inl err
           | Inr mask4 \<Rightarrow>
               (case toInt p1 128 of
                  Inl err \<Rightarrow> Inl err
                | Inr mask6 \<Rightarrow> Inr (mask4, mask6)))
      | _ \<Rightarrow> Inl (Errorf ''too many / segments in mask'' []))"

definition parseA :: "(string \<Rightarrow> string option) \<Rightarrow> Qualifier \<Rightarrow> string \<Rightarrow> error + Mechanism" where
  "parseA toASCII q rest =
     (if \<not> HasPrefix rest ''a'' then Inl (Errorf ''no match'' [])
      else (let spec = drop 1 rest
            in if spec = '''' then
                 Inr (zeroMechanism\<lparr>Qual := q, Kind := ''a'', Domain := '''',
                                      Mask4 := -1, Mask6 := -1\<rparr>)
               else if HasPrefix spec ''/'' then
                 (case parseMasks (TrimPrefix spec ''/'') of
                    Inl err \<Rightarrow> Inl err
                  | Inr (mask4, mask6) \<Rightarrow>
                      Inr (zeroMechanism\<lparr>Qual := q, Kind := ''a'', Domain := '''',
                                           Mask4 := mask4, Mask6 := mask6\<rparr>))
               else if HasPrefix spec '':'' then
                 (let afterColon = TrimPrefix spec '':''
                  in case Cut afterColon CHR ''/'' of
                       (domainPart, maskPart, found) \<Rightarrow>
                         if domainPart \<noteq> '''' \<and> isl (ValidateDomain toASCII domainPart)
                         then Inl (Errorf ''bad a record domain %q'' [domainPart])
                         else (let domain = (if domainPart \<noteq> '''' then domainPart else '''')
                               in if maskPart \<noteq> '''' then
                                    (case parseMasks maskPart of
                                       Inl err \<Rightarrow> Inl err
                                     | Inr (mask4, mask6) \<Rightarrow>
                                         Inr (zeroMechanism\<lparr>Qual := q, Kind := ''a'',
                                                Domain := domain, Mask4 := mask4,
                                                Mask6 := mask6\<rparr>))
                                  else Inr (zeroMechanism\<lparr>Qual := q, Kind := ''a'',
                                              Domain := domain, Mask4 := -1, Mask6 := -1\<rparr>)))
               else Inl (Errorf ''invalid a-mechanism syntax %q'' [rest])))"

text \<open>
  In \<open>parseMX\<close> the third case of the switch tests \<open>strings.HasPrefix(spec, "")\<close>, the
  empty prefix; the model keeps the test and the default case after it.
\<close>

definition parseMX :: "(string \<Rightarrow> string option) \<Rightarrow> Qualifier \<Rightarrow> string \<Rightarrow> error + Mechanism" where
  "parseMX toASCII q rest =
     (if \<not> HasPrefix rest ''mx'' then Inl (Errorf ''no match'' [])
      else (let spec = drop 2 rest
            in if spec = '''' then
                 Inr (zeroMechanism\<lparr>Qual := q, Kind := ''mx'', Domain := '''',
                                      Mask4 := -1, Mask6 := -1\<rparr>)
               else if HasPrefix spec ''/'' then
                 (case parseMasks (TrimPrefix spec ''/'') of
                    Inl err \<Rightarrow> Inl err
                  | Inr (mask4, mask6) \<Rightarrow>
                      Inr (zeroMechanism\<lparr>Qual := q, Kind := ''mx'', Domain := '''',
                                           Mask4 := mask4, Mask6 := mask6\<rparr>))
               else if HasPrefix spec '''' then
                 (let afterColon = TrimPrefix spec '':''
                  in case Cut afterColon CHR ''/'' of
                       (domainPart, maskPart, found) \<Rightarrow>
                         if domainPart \<noteq> '''' \<and> isl (ValidateDomain toASCII domainPart)
                         then Inl (Errorf ''bad domain %q'' [domainPart])
                         else (let domain = (if domainPart \<noteq> '''' then domainPart else '''')
                               in if maskPart \<noteq> '''' then
                                    (case parseMasks maskPart of
                                       Inl err \<Rightarrow> Inl err
                                     | Inr (mask4, mask6) \<Rightarrow>
                                         Inr (zeroMechanism\<lparr>Qual := q, Kind := ''mx'',
                                                Domain := domain, Mask4 := mask4,
                                                Mask6 := mask6\<rparr>))
                                  else Inr (zeroMechanism\<lparr>Qual := q, Kind := ''mx'',
                                              Domain := domain, Mask4 := -1, Mask6 := -1\<rparr>)))
               else Inl (Errorf ''invalid mx-mechanism syntax %q'' [rest])))"

text \<open>
  The dispatch loop of \<open>Parse\<close> over the ordered list of mechanism parsers: the state
  is the pair \<open>(mech, perr)\<close>, both \<open>nil\<close> at the start; the loop stops at the first
  parser that returns no error. \<open>parseTerm\<close> is the part of the body of the token
  loop that turns one token into this pair; \<open>parseTokens\<close> is the token loop, with the
  record built so far.
\<close>

definition mechParsers ::
  "(string \<Rightarrow> string option) \<Rightarrow> (Qualifier \<Rightarrow> string \<Rightarrow> error + Mechanism) list" where
  "mechParsers toASCII = [parseAll, parseIP4, parseIP6, parseA toASCII, parseMX toASCII]"

fun runParsers ::
  "(Qualifier \<Rightarrow> string \<Rightarrow> error + Mechanism) list \<Rightarrow> Qualifier \<Rightarrow> string \<Rightarrow>
     Mechanism option \<times> error option \<Rightarrow> Mechanism option \<times> error option" where
  "runParsers [] q rest st = st"
| "runParsers (pf # pfs) q rest st =
     (case pf q rest of
        Inr mech \<Rightarrow> (Some mech, None)
      | Inl perr \<Rightarrow> runParsers pfs q rest (None, Some perr))"

definition parseTerm ::
  "(string \<Rightarrow> string option) \<Rightarrow> string \<Rightarrow> Mechanism option \<times> error option" where
  "parseTerm toASCII tok =
     (case stripQualifier tok of
        (q, rest) \<Rightarrow> runParsers (mechParsers toASCII) q rest (None, None))"

fun parseTokens ::
  "(string \<Rightarrow> string option) \<Rightarrow> string list \<Rightarrow> Record \<Rightarrow> (error + Record) outcome" where
  "parseTokens toASCII [] record = Returns (Inr record)"
| "parseTokens toASCII (tok # toks) record =
     (case parseTerm toASCII tok of
        (mech, Some perr) \<Rightarrow> Returns (Inl (ErrorfV ''permerror: %v'' perr))
      | (None, None) \<Rightarrow> Panic
      | (Some mech, None) \<Rightarrow>
          parseTokens toASCII toks (record\<lparr>Mechs := Mechs record @ [mech]\<rparr>))"

definition Parse :: "(string \<Rightarrow> string option) \<Rightarrow> string \<Rightarrow> (error + Record) outcome" where
  "Parse toASCII rawTXT =
     (case tokenizer rawTXT of
        Panic \<Rightarrow> Panic
      | Returns (Inl err) \<Rightarrow> Returns (Inl err)
      | Returns (Inr tokens) \<Rightarrow> parseTokens toASCII tokens zeroRecord)"

section \<open>Fields and kinds\<close>

text \<open>
  The fields that belong to the kind of a mechanism, in the words of the
  specification: the kind is one of those the parser knows, the network is set exactly
  for \<open>ip4\<close> and \<open>ip6\<close>, the domain and the two masks are set at most for \<open>a\<close> and
  \<open>mx\<close>, and the macro is never set. Not set means the zero value of the field.
\<close>

definition kindFields :: "Mechanism \<Rightarrow> bool" where
  "kindFields m =
     ((Kind m = ''all'' \<or> Kind m = ''ip4'' \<or> Kind m = ''ip6'' \<or> Kind m = ''a'' \<or> Kind m = ''mx'')
      \<and> ((Net m \<noteq> None) = (Kind m = ''ip4'' \<or> Kind m = ''ip6''))
      \<and> ((Kind m = ''a'' \<or> Kind m = ''mx'') \<or> (Domain m = '''' \<and> Mask4 m = 0 \<and> Mask6 m = 0))
      \<and> Macro m = '''')"

section \<open>Prefix lengths\<close>

text \<open>
  A prefix length in range, in the words of the specification: the text after the
  slash is a decimal number of at most \<open>mx\<close> (32 for \<open>ip4\<close>, 128 for \<open>ip6\<close>).
\<close>

definition prefixLenInRange :: "string \<Rightarrow> nat \<Rightarrow> bool" where
  "prefixLenInRange l mx = (l \<noteq> [] \<and> list_all isDigit l \<and> decimal l \<le> mx)"

section \<open>The IDNA conversion\<close>

text \<open>
  \<open>ValidateDomain\<close> calls \<open>idna.Lookup.ToASCII\<close>, of an external library. The profile
  \<open>Lookup\<close> has the STD3 rules and the hyphen checks on: an ASCII character other than
  a letter, a digit, a hyphen or the dot is refused, and so is a label that starts or
  ends with a hyphen; capital letters are mapped to small ones. \<open>lookupToASCII\<close> is
  the conversion on ASCII names. A name with a byte outside ASCII, or with a label that
  has hyphens in both its third and fourth position (the ACE labels \<open>xn--\<close> among them),
  goes through Punycode in the library; the model leaves these names to its parameter
  \<open>other\<close>.
\<close>

definition isASCII :: "char \<Rightarrow> bool" where
  "isASCII c = (of_char c < (128::nat))"

definition isLetter :: "char \<Rightarrow> bool" where
  "isLetter c = (((97::nat) \<le> of_char c \<and> of_char c \<le> (122::nat))
                 \<or> ((65::nat) \<le> of_char c \<and> of_char c \<le> (90::nat)))"

definition isLDH :: "char \<Rightarrow> bool" where
  "isLDH c = (isLetter c \<or> isDigit c \<or> c = CHR ''-'')"

definition disallowedSTD3 :: "char \<Rightarrow> bool" where
  "disallowedSTD3 c = (isASCII c \<and> \<not> isLDH c \<and> c \<noteq> CHR ''.'')"

definition hyphenEdge :: "string \<Rightarrow> bool" where
  "hyphenEdge l = (l \<noteq> [] \<and> (hd l = CHR ''-'' \<or> last l = CHR ''-''))"

definition hyphen34 :: "string \<Rightarrow> bool" where
  "hyphen34 l = (length l \<ge> 4 \<and> l ! 2 = CHR ''-'' \<and> l ! 3 = CHR ''-'')"

definition lookupToASCII :: "(string \<Rightarrow> string option) \<Rightarrow> string \<Rightarrow> string option" where
  "lookupToASCII other s =
     (if list_ex disallowedSTD3 s then None
      else if list_all isASCII s \<and> \<not> list_ex hyphen34 (Split s CHR ''.'') then
        (if list_ex hyphenEdge (Split s CHR ''.'') then None else Some (ToLower s))
      else other s)"

text \<open>
  A label with invalid characters, in the words of the specification: a character
  outside letters, digits and hyphen, or a hyphen at the start or the end.
\<close>

definition invalidLabel :: "string \<Rightarrow> bool" where
  "invalidLabel l = (list_ex (\<lambda>c. \<not> isLDH c) l \<or> hyphenEdge l)"

definition hasInvalidLabel :: "string \<Rightarrow> bool" where
  "hasInvalidLabel s = list_ex invalidLabel (Split s CHR ''.'')"

section \<open>Test data\<close>

text \<open>
  A fetch for two domains whose records redirect to each other; any other domain has no
  record.
\<close>

definition mutualRedirect :: "string \<Rightarrow> string \<times> error option" where
  "mutualRedirect d =
     (if d = ''a.example'' then (''v=spf1 redirect=b.example'', None)
      else if d = ''b.example'' then (''v=spf1 redirect=a.example'', None)
      else ('''', Some ErrNoDNSrecord))"

text \<open>A record with one mechanism of each of four kinds, for the examples below.\<close>

definition sampleRecord :: Record where
  "sampleRecord =
     \<lparr>Mechs =
        [\<lparr>Qual = QPlus, Kind = ''ip4'',
          Net = Some \<lparr>IP = [192, 0, 2, 0], Mask = [0xff, 0xff, 0xff, 0]\<rparr>,
          Domain = [], Mask4 = 0, Mask6 = 0, Macro = []\<rparr>,
         \<lparr>Qual = QTilde, Kind = ''a'', Net = None, Domain = ''mail.example.com'',
          Mask4 = 24, Mask6 = -1, Macro = []\<rparr>,
         \<lparr>Qual = QPlus, Kind = ''mx'', Net = None, Domain = [], Mask4 = -1, Mask6 = -1,
          Macro = []\<rparr>,
         \<lparr>Qual = QMinus, Kind = ''all'', Net = None, Domain = [], Mask4 = 0, Mask6 = 0,
          Macro = []\<rparr>],
      Redirect = None, Exp = None, Unknown = []\<rparr>"

section \<open>Evaluation lemmas\<close>

lemmas string_defs =
  TrimSpace_def TrimSuffix_def HasSuffix_def HasPrefix_def TrimPrefix_def ToLower_def
  lowerChar_def isSpace_def

lemma ValidateDomain_example_com:
  "ValidateDomain Some ''example.com'' = Inr ''example.com''"
  by (simp add: ValidateDomain_def string_defs)

lemma ValidateDomain_a_example:
  "ValidateDomain Some ''a.example'' = Inr ''a.example''"
  by (simp add: ValidateDomain_def string_defs)

text \<open>One rejected domain for each of the five errors of \<open>ValidateDomain\<close>.\<close>

lemma ValidateDomain_single_label:
  "ValidateDomain Some ''localhost'' = Inl ErrSingleLabel"
  by (simp add: ValidateDomain_def string_defs)

lemma ValidateDomain_empty_label:
  "ValidateDomain Some ''a..example'' = Inl ErrEmptyLabel"
  by (simp add: ValidateDomain_def string_defs)

lemma ValidateDomain_label_too_long:
  "ValidateDomain Some
     ''aaaaaaaaaaaaaaaaaaaaaaaaaaaaaaaaaaaaaaaaaaaaaaaaaaaaaaaaaaaaaaaa.example''
   = Inl ErrLabelTooLong"
  by (simp add: ValidateDomain_def string_defs)

lemma ValidateDomain_domain_too_long:
  "ValidateDomain Some
     ''aaaaaaaaaaaaaaaaaaaaaaaaaaaaaaaaaaaaaaaaaaaaaaaaaaaaaaaaaaaaaaa.aaaaaaaaaaaaaaaaaaaaaaaaaaaaaaaaaaaaaaaaaaaaaaaaaaaaaaaaaaaaaaa.aaaaaaaaaaaaaaaaaaaaaaaaaaaaaaaaaaaaaaaaaaaaaaaaaaaaaaaaaaaaaaa.aaaaaaaaaaaaaaaaaaaaaaaaaaaaaaaaaaaaaaaaaaaaaaaaaaaaaaaaaaaaaaa.aaaa''
   = Inl ErrDomainTooLong"
  by (simp add: ValidateDomain_def string_defs)

lemma ValidateDomain_idna:
  "ValidateDomain (\<lambda>s. None) ''example.com'' = Inl ErrIDNAConversion"
  by (simp add: ValidateDomain_def)

section \<open>Properties of check_host\<close>

text \<open>
  C8. A domain that \<open>ValidateDomain\<close> rejects makes \<open>CheckHost\<close> return the code
  \<open>none\<close>, the validation error as the cause and no transport error, and the record is
  fetched for no domain.
\<close>

theorem CheckHost_malformed_domain:
  assumes "ValidateDomain toASCII domain = Inl e"
  shows "CheckHost toASCII c ip domain sender
           = (\<lparr>Code = None_Result, Cause = Some e\<rparr>, None, [])"
  using assms by (simp add: CheckHost_def)

text \<open>
  Instances: a single label, an empty label, a label of 64 bytes, a name of 260 bytes,
  and a name that the IDNA conversion refuses.
\<close>

theorem CheckHost_malformed_domain_witness:
  "CheckHost Some (NewChecker (\<lambda>d. (''v=spf1 -all'', None))) [192, 0, 2, 1]
       ''localhost'' ''user@example.com''
     = (\<lparr>Code = None_Result, Cause = Some ErrSingleLabel\<rparr>, None, [])
   \<and> CheckHost Some (NewChecker (\<lambda>d. (''v=spf1 -all'', None))) [192, 0, 2, 1]
       ''a..example'' ''user@example.com''
     = (\<lparr>Code = None_Result, Cause = Some ErrEmptyLabel\<rparr>, None, [])
   \<and> CheckHost Some (NewChecker (\<lambda>d. (''v=spf1 -all'', None))) [192, 0, 2, 1]
       ''aaaaaaaaaaaaaaaaaaaaaaaaaaaaaaaaaaaaaaaaaaaaaaaaaaaaaaaaaaaaaaaa.example''
       ''user@example.com''
     = (\<lparr>Code = None_Result, Cause = Some ErrLabelTooLong\<rparr>, None, [])
   \<and> CheckHost Some (NewChecker (\<lambda>d. (''v=spf1 -all'', None))) [192, 0, 2, 1]
       ''aaaaaaaaaaaaaaaaaaaaaaaaaaaaaaaaaaaaaaaaaaaaaaaaaaaaaaaaaaaaaaa.aaaaaaaaaaaaaaaaaaaaaaaaaaaaaaaaaaaaaaaaaaaaaaaaaaaaaaaaaaaaaaa.aaaaaaaaaaaaaaaaaaaaaaaaaaaaaaaaaaaaaaaaaaaaaaaaaaaaaaaaaaaaaaa.aaaaaaaaaaaaaaaaaaaaaaaaaaaaaaaaaaaaaaaaaaaaaaaaaaaaaaaaaaaaaaa.aaaa''
       ''user@example.com''
     = (\<lparr>Code = None_Result, Cause = Some ErrDomainTooLong\<rparr>, None, [])
   \<and> CheckHost (\<lambda>s. None) (NewChecker (\<lambda>d. (''v=spf1 -all'', None))) [192, 0, 2, 1]
       ''example.com'' ''user@example.com''
     = (\<lparr>Code = None_Result, Cause = Some ErrIDNAConversion\<rparr>, None, [])"
  using CheckHost_malformed_domain [OF ValidateDomain_single_label]
    CheckHost_malformed_domain [OF ValidateDomain_empty_label]
    CheckHost_malformed_domain [OF ValidateDomain_label_too_long]
    CheckHost_malformed_domain [OF ValidateDomain_domain_too_long]
    CheckHost_malformed_domain [OF ValidateDomain_idna]
  by (intro conjI)

section \<open>The decision tree\<close>

text \<open>
  When the domain is valid and the fetch returns a non-empty record and no error,
  \<open>CheckHost\<close> hands over to \<open>evaluate\<close>, whose result does not depend on the record,
  the address, the sender or the limits of the checker.
\<close>

lemma CheckHost_record_found:
  assumes "ValidateDomain toASCII domain = Inr d"
    and "Resolver c d = (spf, None)" and "spf \<noteq> ''''"
  shows "CheckHost toASCII c ip domain sender
           = (\<lparr>Code = Neutral, Cause = Some (ErrorString ''policy exists but no assertion'')\<rparr>,
              None, [d])"
  using assms by (simp add: CheckHost_def evaluate_def errors_Is_def)

text \<open>
  C1. The claim is that a domain whose record is \<open>v=spf1 -all\<close> evaluates to \<open>fail\<close>
  for every address. Here the fetch for \<open>example.com\<close> returns exactly that record;
  for every address, sender and limits \<open>CheckHost\<close> returns \<open>neutral\<close>, which is not
  \<open>fail\<close>.
\<close>

theorem CheckHost_minus_all_Neutral:
  "CheckHost Some (c\<lparr>Resolver := \<lambda>d. (''v=spf1 -all'', None)\<rparr>) ip ''example.com'' sender
     = (\<lparr>Code = Neutral, Cause = Some (ErrorString ''policy exists but no assertion'')\<rparr>,
        None, [''example.com''])
   \<and> Neutral \<noteq> Fail"
  by (simp add: CheckHost_def ValidateDomain_example_com evaluate_def errors_Is_def
      Neutral_def Fail_def)

text \<open>
  C2. Two domains whose records redirect to each other. The claim is that evaluation
  ends with \<open>permerror\<close> after ten lookups. With the limits of \<open>NewChecker\<close> (and with
  any others) \<open>CheckHost\<close> fetches the record of the first domain only and returns
  \<open>neutral\<close>: the redirect is never followed.
\<close>

theorem CheckHost_mutual_redirect_Neutral:
  "CheckHost Some (NewChecker mutualRedirect) ip ''a.example'' sender
     = (\<lparr>Code = Neutral, Cause = Some (ErrorString ''policy exists but no assertion'')\<rparr>,
        None, [''a.example''])
   \<and> CheckHost Some (c\<lparr>Resolver := mutualRedirect\<rparr>) ip ''a.example'' sender
     = (\<lparr>Code = Neutral, Cause = Some (ErrorString ''policy exists but no assertion'')\<rparr>,
        None, [''a.example''])
   \<and> Neutral \<noteq> PermError"
  by (simp add: CheckHost_def ValidateDomain_a_example evaluate_def errors_Is_def
      mutualRedirect_def NewChecker_def Neutral_def PermError_def)

text \<open>
  Whatever the fetch returns, a call of \<open>CheckHost\<close> fetches the record of at most one
  domain.
\<close>

lemma CheckHost_fetches_at_most_once:
  "length (snd (snd (CheckHost toASCII c ip domain sender))) \<le> 1"
  by (simp add: CheckHost_def evaluate_def Let_def split: sum.splits prod.splits)

text \<open>
  C3. A valid domain with no SPF record. The fetch reports this either as an empty
  record with no error or as \<open>ErrNoDNSrecord\<close>. In the first case \<open>CheckHost\<close> returns
  the zero result, whose code is the empty string and not \<open>none\<close>; in the second it
  returns \<open>none\<close> together with the error as the transport error.
\<close>

theorem CheckHost_no_record:
  "CheckHost Some (c\<lparr>Resolver := \<lambda>d. ([], None)\<rparr>) ip ''example.com'' sender
     = (\<lparr>Code = [], Cause = None\<rparr>, None, [''example.com''])
   \<and> [] \<noteq> None_Result
   \<and> CheckHost Some (c\<lparr>Resolver := \<lambda>d. ([], Some ErrNoDNSrecord)\<rparr>) ip ''example.com'' sender
     = (\<lparr>Code = None_Result, Cause = Some ErrNoDNSrecord\<rparr>, Some ErrNoDNSrecord,
        [''example.com''])"
  by (simp add: CheckHost_def ValidateDomain_example_com errors_Is_def zeroCheckHostResult_def
      None_Result_def)

text \<open>
  More generally, for a valid domain no outcome of the fetch makes \<open>CheckHost\<close> return
  the code \<open>none\<close> with no transport error.
\<close>

lemma CheckHost_valid_domain_not_None_nil:
  assumes "ValidateDomain toASCII domain = Inr d"
    and "CheckHost toASCII c ip domain sender = (r, e, l)"
  shows "\<not> (Code r = None_Result \<and> e = None)"
proof (cases "Resolver c d")
  case (Pair spf err)
  show ?thesis
    using assms Pair
    by (auto simp: CheckHost_def evaluate_def zeroCheckHostResult_def errors_Is_def Let_def
        None_Result_def Neutral_def TempError_def PermError_def split: if_splits option.splits)
qed

section \<open>Tokens and terms\<close>

lemma Fields_nonempty: "\<not> isSpace c \<Longrightarrow> Fields (c # cs) \<noteq> []"
  by (simp split: list.splits)

lemma tokenizer_returns: "tokenizer raw \<noteq> Panic"
proof (cases "HasPrefix (ToLower (TrimSpace raw)) ''v=spf1''")
  case False
  then show ?thesis by (simp add: tokenizer_def Let_def)
next
  case True
  then obtain c cs where s: "TrimSpace raw = c # cs" and c: "lowerChar c = CHR ''v''"
    by (cases "TrimSpace raw") (auto simp: HasPrefix_def ToLower_def)
  have "\<not> isSpace c"
    using c by (auto simp: isSpace_def lowerChar_def)
  then have "Fields (TrimSpace raw) \<noteq> []"
    unfolding s by (rule Fields_nonempty)
  then show ?thesis
    by (simp add: tokenizer_def Let_def split: list.splits)
qed

lemma tokenizer_missing_version:
  "\<not> HasPrefix (ToLower (TrimSpace raw)) ''v=spf1''
   \<Longrightarrow> tokenizer raw = Returns (Inl (Errorf ''missing v=spf1'' []))"
  by (simp add: tokenizer_def Let_def)

text \<open>
  C5. The claim is that an input whose first token is not exactly \<open>v=spf1\<close> is rejected
  as lacking the version. The test of \<open>tokenizer\<close> is a prefix test on the whole text:
  the first token \<open>v=spf1x\<close> passes it and is dropped as if it were the version tag.
\<close>

theorem tokenizer_accepts_longer_version:
  "Fields ''v=spf1x -all'' = [''v=spf1x'', ''-all'']
   \<and> ToLower ''v=spf1x'' \<noteq> ''v=spf1''
   \<and> tokenizer ''v=spf1x -all'' = Returns (Inr [''-all''])"
  by (simp add: tokenizer_def Let_def string_defs)

text \<open>The rest of the claim: nothing after the first token is the error for no terms.\<close>

lemma tokenizer_no_terms: "tokenizer ''v=spf1'' = Returns (Inl (Errorf ''no terms'' []))"
  by (simp add: tokenizer_def Let_def string_defs)

lemma tokenizer_only_version:
  "HasPrefix (ToLower (TrimSpace raw)) ''v=spf1'' \<Longrightarrow> length (Fields (TrimSpace raw)) = 1
   \<Longrightarrow> tokenizer raw = Returns (Inl (Errorf ''no terms'' []))"
  by (auto simp: tokenizer_def Let_def split: list.splits)

lemma runParsers_result:
  "runParsers pfs q rest (None, Some e) = (m, e') \<Longrightarrow> (m = None) \<noteq> (e' = None)"
  by (induction pfs arbitrary: e) (auto split: sum.splits)

lemma parseTerm_result:
  "parseTerm toASCII tok = (m, e) \<Longrightarrow> (m = None) \<noteq> (e = None)"
  by (auto simp: parseTerm_def mechParsers_def split: prod.splits sum.splits
      dest: runParsers_result)

lemma parseTokens_returns: "parseTokens toASCII toks acc \<noteq> Panic"
proof (induction toks arbitrary: acc)
  case Nil
  then show ?case by simp
next
  case (Cons tok toks)
  obtain m e where p: "parseTerm toASCII tok = (m, e)"
    by (cases "parseTerm toASCII tok")
  from parseTerm_result [OF p] Cons show ?case
    by (cases m; cases e) (simp_all add: p)
qed

lemma Parse_returns: "Parse toASCII raw \<noteq> Panic"
  using tokenizer_returns [of raw] parseTokens_returns
  by (auto simp: Parse_def split: outcome.splits sum.splits)

text \<open>The token loop changes the mechanisms of the record only.\<close>

lemma parseTokens_modifiers:
  "parseTokens toASCII toks acc = Returns (Inr acc')
   \<Longrightarrow> Redirect acc' = Redirect acc \<and> Exp acc' = Exp acc
       \<and> Unknown acc' = Unknown acc"
proof (induction toks arbitrary: acc)
  case Nil
  then show ?case by simp
next
  case (Cons tok toks)
  then show ?case
    by (fastforce split: prod.splits option.splits)
qed

lemma Parse_no_modifiers:
  assumes "Parse toASCII raw = Returns (Inr acc)"
  shows "Redirect acc = None \<and> Exp acc = None \<and> Unknown acc = []"
proof -
  from assms obtain toks where "parseTokens toASCII toks zeroRecord = Returns (Inr acc)"
    by (auto simp: Parse_def split: outcome.splits sum.splits)
  from parseTokens_modifiers [OF this] show ?thesis
    by (simp add: zeroRecord_def)
qed

lemma parseTerm_modifier:
  "parseTerm toASCII ''redirect=example.com'' = (None, Some (Errorf ''no match'' []))"
  "parseTerm toASCII ''exp=explain.example.com'' = (None, Some (Errorf ''no match'' []))"
  "parseTerm toASCII ''foo=bar'' = (None, Some (Errorf ''no match'' []))"
  by (simp_all add: parseTerm_def stripQualifier_def mechParsers_def parseAll_def parseIP4_def
      parseIP6_def parseA_def parseMX_def HasPrefix_def QPlus_def)

text \<open>
  C4. The claim is that a \<open>name=value\<close> term is recorded as a modifier: \<open>redirect=\<close>
  and \<open>exp=\<close> in their slots, any other name in \<open>Unknown\<close>. \<open>Parse\<close> has no modifier
  case: each such term goes through the mechanism parsers, none of them matches, and the
  whole record is rejected.
\<close>

theorem Parse_rejects_modifiers:
  "Parse toASCII ''v=spf1 redirect=example.com''
     = Returns (Inl (ErrorfV ''permerror: %v'' (Errorf ''no match'' [])))
   \<and> Parse toASCII ''v=spf1 exp=explain.example.com''
     = Returns (Inl (ErrorfV ''permerror: %v'' (Errorf ''no match'' [])))
   \<and> Parse toASCII ''v=spf1 foo=bar''
     = Returns (Inl (ErrorfV ''permerror: %v'' (Errorf ''no match'' [])))"
  by (simp add: Parse_def tokenizer_def Let_def string_defs parseTerm_modifier)

section \<open>Label characters\<close>

text \<open>Every error of \<open>ValidateDomain\<close> is one of its five sentinels.\<close>

lemma checkLabels_errors:
  "checkLabels ls = Some e \<Longrightarrow> e = ErrEmptyLabel \<or> e = ErrLabelTooLong"
  by (induction ls) (auto split: if_splits)

lemma ValidateDomain_errors:
  assumes "ValidateDomain toASCII raw = Inl e"
  shows "e = ErrIDNAConversion \<or> e = ErrDomainTooLong \<or> e = ErrSingleLabel
         \<or> e = ErrEmptyLabel \<or> e = ErrLabelTooLong"
  using assms
  by (auto simp: ValidateDomain_def Let_def split: option.splits if_splits
      dest: checkLabels_errors)

lemmas idna_defs =
  lookupToASCII_def disallowedSTD3_def isASCII_def isLDH_def isLetter_def isDigit_def
  hyphenEdge_def hyphen34_def hasInvalidLabel_def invalidLabel_def

text \<open>The conversion accepts an ordinary name and maps its capital letters.\<close>

lemma lookupToASCII_example:
  "lookupToASCII other ''Mail.Example.COM'' = Some ''mail.example.com''"
  by (simp add: idna_defs string_defs char_of_def bit_Suc_0_iff)

lemma ValidateDomain_lookup_example:
  "ValidateDomain (lookupToASCII other) '' Mail.Example.COM. '' = Inr ''mail.example.com''"
  by (simp add: ValidateDomain_def idna_defs string_defs char_of_def bit_Suc_0_iff)






section \<open>The mx mechanism without a colon\<close>

lemma parseMasks_24_64: "parseMasks ''24/64'' = Inr (24, 64)"
  by (simp add: parseMasks_def toInt_def Atoi_def isDigit_def decimal_def digitVal_def)

lemma parseMasks_99: "parseMasks ''99'' = Inl (Errorf ''cidr out of range'' [])"
  by (simp add: parseMasks_def toInt_def Atoi_def isDigit_def decimal_def digitVal_def)

lemma toInt_errors: "toInt s mx = Inl e \<Longrightarrow> e = Errorf ''cidr out of range'' []"
  by (auto simp: toInt_def split: option.splits if_splits)

lemma parseMasks_errors:
  "parseMasks m = Inl e
   \<Longrightarrow> e = Errorf ''cidr out of range'' [] \<or> e = Errorf ''too many / segments in mask'' []"
  by (auto simp: parseMasks_def split: list.splits sum.splits dest: toInt_errors)

text \<open>
  C10, as stated: a token \<open>mx<rest>\<close> whose rest starts with neither \<open>:\<close> nor \<open>/\<close> is
  accepted whenever the rest up to the first \<open>/\<close> passes \<open>ValidateDomain\<close>. The
  token \<open>mxexample.com/99\<close> is such a token, \<open>example.com\<close> passes, and the token is
  rejected, because of the mask.
\<close>

theorem parseMX_bad_mask_rejected:
  "ValidateDomain Some ''example.com'' = Inr ''example.com''
   \<and> Cut ''example.com/99'' CHR ''/'' = (''example.com'', ''99'', True)
   \<and> parseMX Some QPlus ''mxexample.com/99'' = Inl (Errorf ''cidr out of range'' [])"
  by (simp add: parseMX_def HasPrefix_def TrimPrefix_def ValidateDomain_example_com
      parseMasks_99)

text \<open>
  C10, amended. Let the token be \<open>mx<rest>\<close> with a non-empty rest that starts with
  neither \<open>:\<close> nor \<open>/\<close>, and let \<open>d\<close> and \<open>m\<close> be the parts of the rest before and
  after its first \<open>/\<close>. The token is never rejected as invalid mx syntax. When
  \<open>d\<close> is rejected by \<open>ValidateDomain\<close> the token is rejected as a bad domain. When
  \<open>d\<close> passes, the token is accepted as an mx mechanism of domain \<open>d\<close> if \<open>m\<close> is
  empty (masks unset, \<open>-1\<close>) or \<open>parseMasks\<close> accepts \<open>m\<close> (with its masks), and it is
  rejected with the error of \<open>parseMasks\<close> otherwise.
\<close>

theorem parseMX_bare_domain:
  assumes "rest \<noteq> []" and "hd rest \<noteq> CHR '':''" and "hd rest \<noteq> CHR ''/''"
    and "Cut rest CHR ''/'' = (d, m, f)"
  shows "(\<forall>a. parseMX toASCII q (''mx'' @ rest)
              \<noteq> Inl (Errorf ''invalid mx-mechanism syntax %q'' a))
       \<and> (isl (ValidateDomain toASCII d)
            \<longrightarrow> parseMX toASCII q (''mx'' @ rest) = Inl (Errorf ''bad domain %q'' [d]))
       \<and> (\<not> isl (ValidateDomain toASCII d) \<and> m = []
            \<longrightarrow> parseMX toASCII q (''mx'' @ rest)
                = Inr \<lparr>Qual = q, Kind = ''mx'', Net = None, Domain = d, Mask4 = -1, Mask6 = -1,
                       Macro = []\<rparr>)
       \<and> (\<forall>m4 m6. \<not> isl (ValidateDomain toASCII d) \<and> m \<noteq> [] \<and> parseMasks m = Inr (m4, m6)
            \<longrightarrow> parseMX toASCII q (''mx'' @ rest)
                = Inr \<lparr>Qual = q, Kind = ''mx'', Net = None, Domain = d, Mask4 = m4, Mask6 = m6,
                       Macro = []\<rparr>)
       \<and> (\<forall>e. \<not> isl (ValidateDomain toASCII d) \<and> m \<noteq> [] \<and> parseMasks m = Inl e
            \<longrightarrow> parseMX toASCII q (''mx'' @ rest) = Inl e)"
proof -
  obtain c cs where rest: "rest = c # cs" and c: "c \<noteq> CHR '':''" "c \<noteq> CHR ''/''"
    using assms(1-3) by (cases rest) auto
  have d: "d \<noteq> []"
    using assms(4) c by (auto simp: rest split: prod.splits)
  have spec: "HasPrefix (CHR ''m'' # CHR ''x'' # rest) ''mx''"
    "\<not> HasPrefix rest ''/''" "TrimPrefix rest '':'' = rest" "HasPrefix rest ''''"
    using c by (simp_all add: HasPrefix_def TrimPrefix_def rest)
  have masks: "parseMasks m \<noteq> Inl (Errorf ''invalid mx-mechanism syntax %q'' a)" for a
    using parseMasks_errors [of m] by auto
  show ?thesis
    using d assms(1,4) masks
    by (auto simp: parseMX_def spec zeroMechanism_def Let_def split: sum.splits)
qed

theorem parseMX_bare_domain_witness:
  "parseMX Some QPlus ''mxexample.com''
     = Inr \<lparr>Qual = QPlus, Kind = ''mx'', Net = None, Domain = ''example.com'', Mask4 = -1,
            Mask6 = -1, Macro = []\<rparr>
   \<and> parseMX Some QPlus ''mxexample.com/24/64''
     = Inr \<lparr>Qual = QPlus, Kind = ''mx'', Net = None, Domain = ''example.com'', Mask4 = 24,
            Mask6 = 64, Macro = []\<rparr>
   \<and> parseMX Some QPlus ''mxexample.com/99'' = Inl (Errorf ''cidr out of range'' [])
   \<and> parseMX Some QPlus ''mxlocalhost'' = Inl (Errorf ''bad domain %q'' [''localhost''])"
proof -
  have v: "\<not> isl (ValidateDomain Some ''example.com'')"
    by (simp add: ValidateDomain_example_com)
  have l: "isl (ValidateDomain Some ''localhost'')"
    by (simp add: ValidateDomain_def string_defs)
  have 1: "parseMX Some QPlus ''mxexample.com''
     = Inr \<lparr>Qual = QPlus, Kind = ''mx'', Net = None, Domain = ''example.com'', Mask4 = -1,
            Mask6 = -1, Macro = []\<rparr>"
    using parseMX_bare_domain [of "''example.com''" "''example.com''" "[]" False Some QPlus] v
    by simp
  have 2: "parseMX Some QPlus ''mxexample.com/24/64''
     = Inr \<lparr>Qual = QPlus, Kind = ''mx'', Net = None, Domain = ''example.com'', Mask4 = 24,
            Mask6 = 64, Macro = []\<rparr>"
    using parseMX_bare_domain [of "''example.com/24/64''" "''example.com''" "''24/64''" True
        Some QPlus] v parseMasks_24_64
    by simp
  have 3: "parseMX Some QPlus ''mxexample.com/99'' = Inl (Errorf ''cidr out of range'' [])"
    using parseMX_bare_domain [of "''example.com/99''" "''example.com''" "''99''" True
        Some QPlus] v parseMasks_99
    by simp
  have 4: "parseMX Some QPlus ''mxlocalhost'' = Inl (Errorf ''bad domain %q'' [''localhost''])"
    using parseMX_bare_domain [of "''localhost''" "''localhost''" "[]" False Some QPlus] l
    by simp
  from 1 2 3 4 show ?thesis by simp
qed

text \<open>The default case of the switch in \<open>parseMX\<close> is dead for every token.\<close>

lemma parseMX_never_invalid_syntax:
  "parseMX toASCII q tok \<noteq> Inl (Errorf ''invalid mx-mechanism syntax %q'' a)"
  by (auto simp: parseMX_def Let_def HasPrefix_def
      split: sum.splits prod.splits if_splits dest: parseMasks_errors)

section \<open>Order of the mechanisms and their fields\<close>

lemma parseAll_fields: "parseAll q rest = Inr m \<Longrightarrow> kindFields m \<and> Qual m = q"
  by (auto simp: parseAll_def kindFields_def zeroMechanism_def split: if_splits)

lemma parseIP4_fields: "parseIP4 q rest = Inr m \<Longrightarrow> kindFields m \<and> Qual m = q"
  by (auto simp: parseIP4_def kindFields_def zeroMechanism_def Let_def
      split: if_splits option.splits prod.splits)

lemma parseIP6_fields: "parseIP6 q rest = Inr m \<Longrightarrow> kindFields m \<and> Qual m = q"
  by (auto simp: parseIP6_def kindFields_def zeroMechanism_def Let_def
      split: if_splits option.splits prod.splits)

lemma parseA_fields: "parseA toASCII q rest = Inr m \<Longrightarrow> kindFields m \<and> Qual m = q"
  by (auto simp: parseA_def kindFields_def zeroMechanism_def Let_def
      split: if_splits sum.splits prod.splits)

lemma parseMX_fields: "parseMX toASCII q rest = Inr m \<Longrightarrow> kindFields m \<and> Qual m = q"
  by (auto simp: parseMX_def kindFields_def zeroMechanism_def Let_def
      split: if_splits sum.splits prod.splits)

lemma parseTerm_fields:
  assumes "parseTerm toASCII tok = (Some m, e)"
  shows "kindFields m \<and> Qual m = fst (stripQualifier tok)"
proof -
  obtain q rest where s: "stripQualifier tok = (q, rest)"
    by (cases "stripQualifier tok")
  from assms have "parseAll q rest = Inr m \<or> parseIP4 q rest = Inr m \<or> parseIP6 q rest = Inr m
      \<or> parseA toASCII q rest = Inr m \<or> parseMX toASCII q rest = Inr m"
    by (auto simp: parseTerm_def s mechParsers_def split: sum.splits)
  then show ?thesis
    using parseAll_fields parseIP4_fields parseIP6_fields parseA_fields parseMX_fields
    by (auto simp: s)
qed

lemma parseTokens_appends:
  "parseTokens toASCII toks acc = Returns (Inr r)
   \<Longrightarrow> \<exists>ms. Mechs r = Mechs acc @ ms
            \<and> map (parseTerm toASCII) toks = map (\<lambda>m. (Some m, None)) ms"
proof (induction toks arbitrary: acc)
  case Nil
  then show ?case by simp
next
  case (Cons tok toks)
  obtain mo eo where p: "parseTerm toASCII tok = (mo, eo)"
    by (cases "parseTerm toASCII tok")
  from Cons.prems obtain mech where m: "mo = Some mech" "eo = None"
    and rec: "parseTokens toASCII toks (acc\<lparr>Mechs := Mechs acc @ [mech]\<rparr>) = Returns (Inr r)"
    by (cases mo; cases eo) (simp_all add: p)
  from Cons.IH [OF rec] obtain ms where
    ms: "Mechs r = (Mechs acc @ [mech]) @ ms"
        "map (parseTerm toASCII) toks = map (\<lambda>m. (Some m, None)) ms"
    by auto
  have "Mechs r = Mechs acc @ (mech # ms)"
    using ms(1) by simp
  moreover have "map (parseTerm toASCII) (tok # toks) = map (\<lambda>m. (Some m, None)) (mech # ms)"
    using ms(2) p m by simp
  ultimately show ?case by blast
qed

lemma tokenizer_terms:
  "tokenizer raw = Returns (Inr toks) \<Longrightarrow> toks = tl (Fields (TrimSpace raw))"
  by (auto simp: tokenizer_def Let_def split: if_splits list.splits)

text \<open>
  C9. When \<open>Parse\<close> accepts a text, its terms are the white-space separated fields
  after the first one, and the mechanisms of the record are, position by position, the
  mechanisms that these terms parse to: there are as many as terms, the i-th one is the
  result of the dispatch on the i-th term and has the qualifier of that term. Each of
  them has only the fields of its kind set.
\<close>

theorem Parse_order_and_fields:
  assumes "Parse toASCII raw = Returns (Inr r)"
  shows "tokenizer raw = Returns (Inr (tl (Fields (TrimSpace raw))))
         \<and> map (parseTerm toASCII) (tl (Fields (TrimSpace raw)))
             = map (\<lambda>m. (Some m, None)) (Mechs r)
         \<and> map Qual (Mechs r) = map (\<lambda>tok. fst (stripQualifier tok)) (tl (Fields (TrimSpace raw)))
         \<and> list_all kindFields (Mechs r)"
proof -
  from assms obtain toks where t: "tokenizer raw = Returns (Inr toks)"
    and p: "parseTokens toASCII toks zeroRecord = Returns (Inr r)"
    by (auto simp: Parse_def split: outcome.splits sum.splits)
  have toks: "toks = tl (Fields (TrimSpace raw))"
    using t by (rule tokenizer_terms)
  from parseTokens_appends [OF p]
  have m: "map (parseTerm toASCII) toks = map (\<lambda>m. (Some m, None)) (Mechs r)"
    by (auto simp: zeroRecord_def)
  have len: "length toks = length (Mechs r)"
    using arg_cong [OF m, of length] by simp
  have each: "parseTerm toASCII (toks ! i) = (Some (Mechs r ! i), None)"
    if "i < length toks" for i
    using arg_cong [OF m, of "\<lambda>xs. xs ! i"] that len by simp
  have q: "map Qual (Mechs r) = map (\<lambda>tok. fst (stripQualifier tok)) toks"
    using len each by (auto simp: list_eq_iff_nth_eq dest: parseTerm_fields)
  have k: "list_all kindFields (Mechs r)"
    using len each by (auto simp: list_all_length dest: parseTerm_fields)
  from t m q k show ?thesis
    unfolding toks by blast
qed

section \<open>Evaluating the address functions\<close>

lemma CIDRMaskBytes_numeral:
  "CIDRMaskBytes (numeral k) n =
     (if n \<ge> 8 then 0xff # CIDRMaskBytes (pred_numeral k) (n - 8)
      else (of_nat (255 - 255 div 2 ^ n)) # CIDRMaskBytes (pred_numeral k) 0)"
  by (metis CIDRMaskBytes.simps(2) numeral_eq_Suc)

lemma leadingOnes_numeral:
  "leadingOnes (numeral k) v =
     (if v mod 256 \<ge> 128
      then (case leadingOnes (pred_numeral k) ((v * 2) mod 256) of (n, r) \<Rightarrow> (Suc n, r))
      else (0, v mod 256))"
  by (metis leadingOnes.simps(2) numeral_eq_Suc)

lemma replicate_numeral: "replicate (numeral k) x = x # replicate (pred_numeral k) x"
  by (simp add: numeral_eq_Suc)

lemmas digit_defs = isDigit_def decimal_def digitVal_def

lemma parseIPv4Fields_192_0_2_0: "parseIPv4Fields ''192.0.2.0'' = Some [192, 0, 2, 0]"
  by (simp add: parseIPv4Fields_def parseIPv4Field_def digit_defs)

lemma ParseCIDR_192_0_2_0_24:
  "ParseCIDR ''192.0.2.0/24''
     = Some ([0, 0, 0, 0, 0, 0, 0, 0, 0, 0, 0xff, 0xff, 192, 0, 2, 0],
             \<lparr>IP = [192, 0, 2, 0], Mask = [0xff, 0xff, 0xff, 0]\<rparr>)"
  by (simp add: ParseCIDR_def ParseAddr_def parseIPv4Fields_192_0_2_0 digit_defs
      CIDRMask_def CIDRMaskBytes_numeral IP_Mask_def v4InV6Prefix_def)

lemma parseIP4_192_0_2_0_24:
  "parseIP4 q ''ip4:192.0.2.0/24''
     = Inr \<lparr>Qual = q, Kind = ''ip4'',
            Net = Some \<lparr>IP = [192, 0, 2, 0], Mask = [0xff, 0xff, 0xff, 0]\<rparr>,
            Domain = [], Mask4 = 0, Mask6 = 0, Macro = []\<rparr>"
  by (simp add: parseIP4_def HasPrefix_def TrimPrefix_def ParseCIDR_192_0_2_0_24 To4_def
      isZeros_def Mask_Size_def leadingOnes_numeral zeroMechanism_def)

lemma parseIP4_no_match:
  "\<not> HasPrefix rest ''ip4:'' \<Longrightarrow> parseIP4 q rest = Inl (Errorf ''no match'' [])"
  by (simp add: parseIP4_def)

lemma ValidateDomain_mail_example_com:
  "ValidateDomain Some ''mail.example.com'' = Inr ''mail.example.com''"
  by (simp add: ValidateDomain_def string_defs)

lemma parseTerm_sample:
  "parseTerm Some ''ip4:192.0.2.0/24''
     = (Some \<lparr>Qual = QPlus, Kind = ''ip4'',
               Net = Some \<lparr>IP = [192, 0, 2, 0], Mask = [0xff, 0xff, 0xff, 0]\<rparr>,
               Domain = [], Mask4 = 0, Mask6 = 0, Macro = []\<rparr>, None)"
  "parseTerm Some ''~a:mail.example.com/24''
     = (Some \<lparr>Qual = QTilde, Kind = ''a'', Net = None, Domain = ''mail.example.com'',
               Mask4 = 24, Mask6 = -1, Macro = []\<rparr>, None)"
  "parseTerm Some ''mx''
     = (Some \<lparr>Qual = QPlus, Kind = ''mx'', Net = None, Domain = [], Mask4 = -1, Mask6 = -1,
               Macro = []\<rparr>, None)"
  "parseTerm Some ''-all''
     = (Some \<lparr>Qual = QMinus, Kind = ''all'', Net = None, Domain = [], Mask4 = 0, Mask6 = 0,
               Macro = []\<rparr>, None)"
  by (simp_all add: parseTerm_def stripQualifier_def mechParsers_def parseAll_def
      parseIP4_192_0_2_0_24 parseIP4_no_match parseIP6_def parseA_def parseMX_def HasPrefix_def TrimPrefix_def
      ValidateDomain_mail_example_com parseMasks_def toInt_def Atoi_def digit_defs
      zeroMechanism_def QPlus_def QMinus_def QTilde_def)

lemma Parse_sample:
  "Parse Some ''v=spf1 ip4:192.0.2.0/24 ~a:mail.example.com/24 mx -all''
     = Returns (Inr sampleRecord)"
  by (simp add: Parse_def tokenizer_def Let_def string_defs parseTerm_sample zeroRecord_def
      sampleRecord_def)

theorem Parse_order_and_fields_witness:
  "Parse Some ''v=spf1 ip4:192.0.2.0/24 ~a:mail.example.com/24 mx -all''
     = Returns (Inr sampleRecord)
   \<and> tl (Fields (TrimSpace ''v=spf1 ip4:192.0.2.0/24 ~a:mail.example.com/24 mx -all''))
     = [''ip4:192.0.2.0/24'', ''~a:mail.example.com/24'', ''mx'', ''-all'']
   \<and> map (parseTerm Some) [''ip4:192.0.2.0/24'', ''~a:mail.example.com/24'', ''mx'', ''-all'']
     = map (\<lambda>m. (Some m, None)) (Mechs sampleRecord)
   \<and> map Qual (Mechs sampleRecord) = [QPlus, QTilde, QPlus, QMinus]
   \<and> map Kind (Mechs sampleRecord) = [''ip4'', ''a'', ''mx'', ''all'']
   \<and> list_all kindFields (Mechs sampleRecord)"
proof -
  have f: "tl (Fields (TrimSpace ''v=spf1 ip4:192.0.2.0/24 ~a:mail.example.com/24 mx -all''))
     = [''ip4:192.0.2.0/24'', ''~a:mail.example.com/24'', ''mx'', ''-all'']"
    by (simp add: string_defs)
  have k: "map Kind (Mechs sampleRecord) = [''ip4'', ''a'', ''mx'', ''all'']"
    by (simp add: sampleRecord_def)
  have q: "map (\<lambda>tok. fst (stripQualifier tok))
             [''ip4:192.0.2.0/24'', ''~a:mail.example.com/24'', ''mx'', ''-all'']
           = [QPlus, QTilde, QPlus, QMinus]"
    by (simp add: stripQualifier_def QPlus_def QTilde_def QMinus_def)
  from Parse_order_and_fields [OF Parse_sample] Parse_sample f k q show ?thesis
    by simp
qed

section \<open>Address families and prefix lengths\<close>

lemma Cut_not_found: "c \<notin> set s \<Longrightarrow> Cut s c = (s, [], False)"
  by (induction s) auto

lemma Cut_found_iff: "snd (snd (Cut s c)) = (c \<in> set s)"
  by (induction s) (auto split: prod.splits)

lemma fst_Cut_append: "fst (Cut (s @ c # r) c) = fst (Cut s c)"
  by (induction s) (auto split: prod.splits)

lemma isZeros_CIDRMaskBytes_0: "isZeros (CIDRMaskBytes l 0)"
  by (induction l) (auto simp: isZeros_def)

lemma simpleMaskLength_zeros: "simpleMaskLength (CIDRMaskBytes l 0) = 0"
proof (cases l)
  case 0
  then show ?thesis by simp
next
  case (Suc k)
  then show ?thesis
    using isZeros_CIDRMaskBytes_0 [of k] by (simp add: leadingOnes_numeral)
qed

lemma partial_byte:
  assumes "n < 8"
  shows "(of_nat (255 - 255 div 2 ^ n) :: byte) \<noteq> 0xff
         \<and> leadingOnes 8 (unat (of_nat (255 - 255 div 2 ^ n) :: byte)) = (n, 0)"
proof -
  from assms consider "n = 0" | "n = 1" | "n = 2" | "n = 3" | "n = 4" | "n = 5" | "n = 6"
    | "n = 7"
    by linarith
  then show ?thesis
    by cases (simp_all add: leadingOnes_numeral)
qed

lemma simpleMaskLength_CIDRMaskBytes:
  "n \<le> 8 * l \<Longrightarrow> simpleMaskLength (CIDRMaskBytes l n) = int n"
proof (induction l arbitrary: n)
  case 0
  then show ?case by simp
next
  case (Suc l)
  show ?case
  proof (cases "n \<ge> 8")
    case True
    with Suc.prems have "n - 8 \<le> 8 * l" by simp
    from Suc.IH [OF this] True show ?thesis by simp
  next
    case False
    then have "n < 8" by simp
    from partial_byte [OF this] False isZeros_CIDRMaskBytes_0 [of l] show ?thesis
      by simp
  qed
qed

lemma Mask_Size_CIDRMask:
  "n \<le> 128 \<Longrightarrow> fst (Mask_Size (CIDRMask n 128)) = int n"
  using simpleMaskLength_CIDRMaskBytes [of n 16]
  by (simp add: Mask_Size_def CIDRMask_def Let_def)

lemma ParseAddr_bitlen: "ParseAddr a = Some (ip, bl) \<Longrightarrow> bl = 32 \<or> bl = 128"
  by (auto simp: ParseAddr_def split: option.splits if_splits)

lemma ParseCIDR_address:
  "ParseCIDR s = Some (ip, n) \<Longrightarrow> \<exists>bl. ParseAddr (fst (Cut s CHR ''/'')) = Some (ip, bl)"
  by (auto simp: ParseCIDR_def Let_def split: prod.splits option.splits if_splits)

lemma parseIP4_cidr_address:
  "fst (Cut (if CHR ''/'' \<notin> set c0 then c0 @ ''/32'' else c0) CHR ''/'') = fst (Cut c0 CHR ''/'')"
  using fst_Cut_append [of c0 "CHR ''/''" "''32''"] by simp

lemma parseIP6_cidr_address:
  "fst (Cut (if CHR ''/'' \<notin> set c0 then c0 @ ''/128'' else c0) CHR ''/'') = fst (Cut c0 CHR ''/'')"
  using fst_Cut_append [of c0 "CHR ''/''" "''128''"] by simp

lemma parseIP4_rejects_IPv6:
  assumes "HasPrefix rest ''ip4:''"
    and "ParseAddr (fst (Cut (TrimPrefix rest ''ip4:'') CHR ''/'')) = Some (ip, bl)"
    and "To4 ip = None"
  shows "isl (parseIP4 q rest)"
proof -
  let ?c0 = "TrimPrefix rest ''ip4:''"
  let ?cidr = "if CHR ''/'' \<notin> set ?c0 then ?c0 @ ''/32'' else ?c0"
  have "ParseCIDR ?cidr = None \<or> (\<exists>n. ParseCIDR ?cidr = Some (ip, n))"
  proof (cases "ParseCIDR ?cidr")
    case None
    then show ?thesis by simp
  next
    case (Some p)
    obtain ip' n where p: "p = (ip', n)" by (cases p)
    from ParseCIDR_address [of ?cidr ip' n] Some p assms(2) have "ip' = ip"
      unfolding parseIP4_cidr_address by auto
    with Some p show ?thesis by simp
  qed
  then show ?thesis
    using assms(1,3) by (auto simp: parseIP4_def Let_def)
qed

lemma parseIP6_rejects_IPv4:
  assumes "HasPrefix rest ''ip6:''"
    and "ParseAddr (fst (Cut (TrimPrefix rest ''ip6:'') CHR ''/'')) = Some (ip, bl)"
    and "To4 ip \<noteq> None"
  shows "isl (parseIP6 q rest)"
proof -
  let ?c0 = "TrimPrefix rest ''ip6:''"
  let ?cidr = "if CHR ''/'' \<notin> set ?c0 then ?c0 @ ''/128'' else ?c0"
  have "ParseCIDR ?cidr = None \<or> (\<exists>n. ParseCIDR ?cidr = Some (ip, n))"
  proof (cases "ParseCIDR ?cidr")
    case None
    then show ?thesis by simp
  next
    case (Some p)
    obtain ip' n where p: "p = (ip', n)" by (cases p)
    from ParseCIDR_address [of ?cidr ip' n] Some p assms(2) have "ip' = ip"
      unfolding parseIP6_cidr_address by auto
    with Some p show ?thesis by simp
  qed
  then show ?thesis
    using assms(1,3) by (auto simp: parseIP6_def Let_def)
qed

lemma parseIP4_rejects_prefix:
  assumes "HasPrefix rest ''ip4:''"
    and "Cut (TrimPrefix rest ''ip4:'') CHR ''/'' = (a, l, True)"
    and "\<not> prefixLenInRange l 32"
  shows "isl (parseIP4 q rest)"
proof -
  let ?c0 = "TrimPrefix rest ''ip4:''"
  have sl: "CHR ''/'' \<in> set ?c0"
    using Cut_found_iff [of ?c0 "CHR ''/''"] assms(2) by simp
  show ?thesis
  proof (cases "ParseCIDR ?c0")
    case None
    then show ?thesis
      using assms(1) sl by (simp add: parseIP4_def Let_def)
  next
    case (Some p)
    obtain ip netw where p: "p = (ip, netw)" by (cases p)
    from Some p assms(2) obtain bl where pa: "ParseAddr a = Some (ip, bl)"
      and r: "l \<noteq> []" "list_all isDigit l" "decimal l \<le> bl"
      and netw: "Mask netw = CIDRMask (decimal l) bl"
      by (auto simp: ParseCIDR_def Let_def split: option.splits if_splits)
    from r assms(3) have big: "decimal l > 32"
      by (simp add: prefixLenInRange_def)
    with r(3) ParseAddr_bitlen [OF pa] have bl: "bl = 128" by auto
    have "fst (Mask_Size (Mask netw)) = int (decimal l)"
      using Mask_Size_CIDRMask [of "decimal l"] r(3) bl netw by simp
    with big have "fst (Mask_Size (Mask netw)) > 32" by simp
    then show ?thesis
      using assms(1) sl Some p by (auto simp: parseIP4_def Let_def split: prod.splits)
  qed
qed

lemma parseIP6_rejects_prefix:
  assumes "HasPrefix rest ''ip6:''"
    and "Cut (TrimPrefix rest ''ip6:'') CHR ''/'' = (a, l, True)"
    and "\<not> prefixLenInRange l 128"
  shows "isl (parseIP6 q rest)"
proof -
  let ?c0 = "TrimPrefix rest ''ip6:''"
  have sl: "CHR ''/'' \<in> set ?c0"
    using Cut_found_iff [of ?c0 "CHR ''/''"] assms(2) by simp
  have "ParseCIDR ?c0 = None"
  proof (cases "ParseAddr a")
    case None
    then show ?thesis
      using assms(2) by (simp add: ParseCIDR_def)
  next
    case (Some p)
    obtain ip bl where p: "p = (ip, bl)" by (cases p)
    from ParseAddr_bitlen [of a ip bl] Some p have "bl \<le> 128" by auto
    with assms(3) have "l = [] \<or> \<not> list_all isDigit l \<or> decimal l > bl"
      by (auto simp: prefixLenInRange_def)
    then show ?thesis
      using assms(2) Some p by (auto simp: ParseCIDR_def)
  qed
  then show ?thesis
    using assms(1) sl by (simp add: parseIP6_def Let_def)
qed

text \<open>
  C6. The claim is that every \<open>ip4\<close> token whose address is an IPv6 literal fails to
  parse. The text \<open>::ffff:1.2.3.4\<close> is an IPv6 literal: it is read by the IPv6 parser
  and \<open>parseIP6\<close> treats its sixteen bytes as an address that \<open>To4\<close> maps to IPv4 and
  rejects the token \<open>ip6:::ffff:1.2.3.4\<close>. \<open>parseIP4\<close> accepts the token
  \<open>ip4:::ffff:1.2.3.4\<close>: the result is a mechanism of kind \<open>ip4\<close> whose network is
  \<open>::/32\<close>, sixteen bytes with a mask of sixteen bytes, in which the address
  \<open>1.2.3.4\<close> is masked away.
\<close>

theorem parseIP4_accepts_mapped_IPv6:
  "addrFamily ''::ffff:1.2.3.4'' = Some CHR '':''
   \<and> parseIPv6 ''::ffff:1.2.3.4'' = Some [0, 0, 0, 0, 0, 0, 0, 0, 0, 0, 0xff, 0xff, 1, 2, 3, 4]
   \<and> To4 [0, 0, 0, 0, 0, 0, 0, 0, 0, 0, 0xff, 0xff, 1, 2, 3, 4] = Some [1, 2, 3, 4]
   \<and> parseIP4 QPlus ''ip4:::ffff:1.2.3.4''
       = Inr \<lparr>Qual = QPlus, Kind = ''ip4'',
              Net = Some \<lparr>IP = [0, 0, 0, 0, 0, 0, 0, 0, 0, 0, 0, 0, 0, 0, 0, 0],
                          Mask = [0xff, 0xff, 0xff, 0xff, 0, 0, 0, 0, 0, 0, 0, 0, 0, 0, 0, 0]\<rparr>,
              Domain = [], Mask4 = 0, Mask6 = 0, Macro = []\<rparr>
   \<and> parseIP6 QPlus ''ip6:::ffff:1.2.3.4''
       = Inl (Errorf ''bad ipcidr %q'' [''::ffff:1.2.3.4/128''])"
proof -
  have f: "parseIPv4Fields ''1.2.3.4'' = Some [1, 2, 3, 4]"
    by (simp add: parseIPv4Fields_def parseIPv4Field_def digit_defs)
  have l2: "v6loop ''1.2.3.4'' 2 0 [0xff, 0xff] = Some ([], 6, 0, [0xff, 0xff, 1, 2, 3, 4])"
    by (subst v6loop.simps) (simp add: isHexDigit_def isDigit_def f)
  have l1: "v6loop ''ffff:1.2.3.4'' 0 0 [] = Some ([], 6, 0, [0xff, 0xff, 1, 2, 3, 4])"
    by (subst v6loop.simps)
      (simp add: isHexDigit_def isDigit_def hexadecimal_def hexVal_def l2
        del: add_2_eq_Suc add_2_eq_Suc')
  have p6: "parseIPv6 ''::ffff:1.2.3.4''
      = Some [0, 0, 0, 0, 0, 0, 0, 0, 0, 0, 0xff, 0xff, 1, 2, 3, 4]"
    by (simp add: parseIPv6_def l1 replicate_numeral)
  have t: "To4 [0, 0, 0, 0, 0, 0, 0, 0, 0, 0, 0xff, 0xff, 1, 2, 3, 4] = Some [1, 2, 3, 4]"
    by (simp add: To4_def isZeros_def)
  have c: "ParseCIDR ''::ffff:1.2.3.4/32''
      = Some ([0, 0, 0, 0, 0, 0, 0, 0, 0, 0, 0xff, 0xff, 1, 2, 3, 4],
              \<lparr>IP = [0, 0, 0, 0, 0, 0, 0, 0, 0, 0, 0, 0, 0, 0, 0, 0],
               Mask = [0xff, 0xff, 0xff, 0xff, 0, 0, 0, 0, 0, 0, 0, 0, 0, 0, 0, 0]\<rparr>)"
    by (simp add: ParseCIDR_def ParseAddr_def p6 digit_defs CIDRMask_def CIDRMaskBytes_numeral
        IP_Mask_def)
  have m: "parseIP4 QPlus ''ip4:::ffff:1.2.3.4''
       = Inr \<lparr>Qual = QPlus, Kind = ''ip4'',
              Net = Some \<lparr>IP = [0, 0, 0, 0, 0, 0, 0, 0, 0, 0, 0, 0, 0, 0, 0, 0],
                          Mask = [0xff, 0xff, 0xff, 0xff, 0, 0, 0, 0, 0, 0, 0, 0, 0, 0, 0, 0]\<rparr>,
              Domain = [], Mask4 = 0, Mask6 = 0, Macro = []\<rparr>"
    by (simp add: parseIP4_def HasPrefix_def TrimPrefix_def c t Mask_Size_def
        leadingOnes_numeral isZeros_def zeroMechanism_def)
  have c6: "ParseCIDR ''::ffff:1.2.3.4/128''
      = Some ([0, 0, 0, 0, 0, 0, 0, 0, 0, 0, 0xff, 0xff, 1, 2, 3, 4],
              \<lparr>IP = [0, 0, 0, 0, 0, 0, 0, 0, 0, 0, 0xff, 0xff, 1, 2, 3, 4],
               Mask = [0xff, 0xff, 0xff, 0xff, 0xff, 0xff, 0xff, 0xff,
                       0xff, 0xff, 0xff, 0xff, 0xff, 0xff, 0xff, 0xff]\<rparr>)"
    by (simp add: ParseCIDR_def ParseAddr_def p6 digit_defs CIDRMask_def CIDRMaskBytes_numeral
        IP_Mask_def)
  have m6: "parseIP6 QPlus ''ip6:::ffff:1.2.3.4''
       = Inl (Errorf ''bad ipcidr %q'' [''::ffff:1.2.3.4/128''])"
    by (simp add: parseIP6_def HasPrefix_def TrimPrefix_def c6 t)
  from p6 t m m6 show ?thesis by simp
qed

text \<open>
  The other tokens of the claim do fail to parse. With the family of an address read
  from \<open>To4\<close>, as both parsers do: an \<open>ip4\<close> token whose address \<open>To4\<close> does not map to
  IPv4 is rejected; an \<open>ip6\<close> token whose address \<open>To4\<close> maps to IPv4 (an IPv4
  literal or the form \<open>::ffff:a.b.c.d\<close>) is rejected; an \<open>ip4\<close> token with a prefix
  length that is not a decimal number of at most 32, and an \<open>ip6\<close> token with one that
  is not a decimal number of at most 128, are rejected.
\<close>

lemma ip_rejections:
  "(HasPrefix rest ''ip4:''
      \<and> ParseAddr (fst (Cut (TrimPrefix rest ''ip4:'') CHR ''/'')) = Some (ip, bl)
      \<and> To4 ip = None
    \<longrightarrow> isl (parseIP4 q rest))
   \<and> (HasPrefix rest ''ip6:''
      \<and> ParseAddr (fst (Cut (TrimPrefix rest ''ip6:'') CHR ''/'')) = Some (ip, bl)
      \<and> To4 ip \<noteq> None
    \<longrightarrow> isl (parseIP6 q rest))
   \<and> (HasPrefix rest ''ip4:''
      \<and> Cut (TrimPrefix rest ''ip4:'') CHR ''/'' = (a, l, True) \<and> \<not> prefixLenInRange l 32
    \<longrightarrow> isl (parseIP4 q rest))
   \<and> (HasPrefix rest ''ip6:''
      \<and> Cut (TrimPrefix rest ''ip6:'') CHR ''/'' = (a, l, True) \<and> \<not> prefixLenInRange l 128
    \<longrightarrow> isl (parseIP6 q rest))"
  using parseIP4_rejects_IPv6 parseIP6_rejects_IPv4 parseIP4_rejects_prefix
    parseIP6_rejects_prefix
  by blast

lemma parseIPv6_2001_db8_1:
  "parseIPv6 ''2001:db8::1'' = Some [0x20, 0x01, 0x0d, 0xb8, 0, 0, 0, 0, 0, 0, 0, 0, 0, 0, 0, 1]"
proof -
  have l3: "v6loop ''1'' 4 4 [0x20, 0x01, 0x0d, 0xb8]
      = Some ([], 6, 4, [0x20, 0x01, 0x0d, 0xb8, 0, 1])"
    by (subst v6loop.simps)
      (simp add: isHexDigit_def isDigit_def hexadecimal_def hexVal_def)
  have l2: "v6loop ''db8::1'' 2 (-1) [0x20, 0x01]
      = Some ([], 6, 4, [0x20, 0x01, 0x0d, 0xb8, 0, 1])"
    by (subst v6loop.simps)
      (simp add: isHexDigit_def isDigit_def hexadecimal_def hexVal_def l3)
  have l1: "v6loop ''2001:db8::1'' 0 (-1) [] = Some ([], 6, 4, [0x20, 0x01, 0x0d, 0xb8, 0, 1])"
    by (subst v6loop.simps)
      (simp add: isHexDigit_def isDigit_def hexadecimal_def hexVal_def l2
        del: add_2_eq_Suc add_2_eq_Suc')
  show ?thesis
    by (simp add: parseIPv6_def l1 replicate_numeral)
qed

lemma ip_rejections_examples:
  "isl (parseIP4 QPlus ''ip4:2001:db8::1'')
   \<and> isl (parseIP4 QPlus ''ip4:2001:db8::1/32'')
   \<and> isl (parseIP6 QPlus ''ip6:192.0.2.1'')
   \<and> isl (parseIP6 QPlus ''ip6:192.0.2.1/24'')
   \<and> isl (parseIP4 QPlus ''ip4:192.0.2.0/33'')
   \<and> isl (parseIP6 QPlus ''ip6:2001:db8::1/129'')"
proof -
  have a6: "ParseAddr ''2001:db8::1''
      = Some ([0x20, 0x01, 0x0d, 0xb8, 0, 0, 0, 0, 0, 0, 0, 0, 0, 0, 0, 1], 128)"
    by (simp add: ParseAddr_def parseIPv6_2001_db8_1)
  have t6: "To4 [0x20, 0x01, 0x0d, 0xb8, 0, 0, 0, 0, 0, 0, 0, 0, 0, 0, 0, 1] = None"
    by (simp add: To4_def isZeros_def)
  have a4: "ParseAddr ''192.0.2.1''
      = Some ([0, 0, 0, 0, 0, 0, 0, 0, 0, 0, 0xff, 0xff, 192, 0, 2, 1], 32)"
    by (simp add: ParseAddr_def parseIPv4Fields_def parseIPv4Field_def digit_defs
        v4InV6Prefix_def)
  have t4: "To4 [0, 0, 0, 0, 0, 0, 0, 0, 0, 0, 0xff, 0xff, 192, 0, 2, 1] \<noteq> None"
    by (simp add: To4_def isZeros_def)
  have p33: "\<not> prefixLenInRange ''33'' 32"
    by (simp add: prefixLenInRange_def digit_defs)
  have p129: "\<not> prefixLenInRange ''129'' 128"
    by (simp add: prefixLenInRange_def digit_defs)
  have 1: "isl (parseIP4 QPlus ''ip4:2001:db8::1'')"
    using ip_rejections [of "''ip4:2001:db8::1''" _ "128" QPlus] a6 t6
    by (simp add: HasPrefix_def TrimPrefix_def)
  have 2: "isl (parseIP4 QPlus ''ip4:2001:db8::1/32'')"
    using ip_rejections [of "''ip4:2001:db8::1/32''" _ "128" QPlus] a6 t6
    by (simp add: HasPrefix_def TrimPrefix_def)
  have 3: "isl (parseIP6 QPlus ''ip6:192.0.2.1'')"
    using ip_rejections [of "''ip6:192.0.2.1''" _ "32" QPlus] a4 t4
    by (simp add: HasPrefix_def TrimPrefix_def)
  have 4: "isl (parseIP6 QPlus ''ip6:192.0.2.1/24'')"
    using ip_rejections [of "''ip6:192.0.2.1/24''" _ "32" QPlus] a4 t4
    by (simp add: HasPrefix_def TrimPrefix_def)
  have 5: "isl (parseIP4 QPlus ''ip4:192.0.2.0/33'')"
    using ip_rejections [of "''ip4:192.0.2.0/33''" _ _ QPlus "''192.0.2.0''" "''33''"] p33
    by (simp add: HasPrefix_def TrimPrefix_def)
  have 6: "isl (parseIP6 QPlus ''ip6:2001:db8::1/129'')"
    using ip_rejections [of "''ip6:2001:db8::1/129''" _ _ QPlus "''2001:db8::1''" "''129''"]
      p129
    by (simp add: HasPrefix_def TrimPrefix_def)
  from 1 2 3 4 5 6 show ?thesis by simp
qed

end
